theory Spec2Isabelle
  imports Main "HOL-Library.Sublist"
begin

section \<open>Data model\<close>

text \<open>
  The add-in reads a remote document model and keeps a few module-level variables.
  A shape is the snapshot of the properties the code loads from the host. JavaScript
  numbers are modelled by integers (coordinates, sizes and z-indices that are whole
  numbers). An optional string property that is absent and one that is the empty string
  are both falsy in every test the code makes, so both are the empty string here.
  \<open>isSelected\<close> and \<open>lastModified\<close> exist only on some host versions: \<open>None\<close> is
  \<open>undefined\<close>; a present \<open>lastModified\<close> is the time value \<open>new Date\<close> gives it.
\<close>

record shape =
  name :: string
  id' :: string
  type' :: string
  text' :: string
  left :: int
  top' :: int
  width :: int
  height :: int
  zIndex :: int
  isSelected :: "bool option"
  lastModified :: "int option"
  altTextDescription :: string
  altTextTitle :: string
  imageData :: "string option"

text \<open>\<open>imageData\<close> is the image object when loaded; its only field read is \<open>format\<close>.\<close>

datatype error = UnsupportedApi string | TransientHostFailure string

fun errorMessage :: "error \<Rightarrow> string" where
  "errorMessage (UnsupportedApi m) = m"
| "errorMessage (TransientHostFailure m) = m"

text \<open>
  A slide gives its shapes after \<open>slide.load("shapes")\<close> and the property loads that
  follow: \<open>Inl\<close> when one of these synchronisations throws, \<open>Inr None\<close> when the
  collection is missing, \<open>Inr (Some items)\<close> otherwise.
\<close>

record slide =
  slideShapes :: "error + shape list option"

text \<open>
  The host as one detection pass sees it. Each field is the outcome of one guarded
  region of host calls: \<open>Inl\<close> (or \<open>Some\<close> for the two bare synchronisations) when a
  call in it throws or reports failure. \<open>topShapeSync\<close> is read by the older script only.
\<close>

record host =
  getSelectedDataAsync :: "error + string"
  getSelectedSlides :: "error + slide list"
  getSelection :: "error + shape list"
  getActiveView :: "error + shape list option"
  lastModifiedSync :: "error option"
  topShapeSync :: "error option"

record position =
  x :: int
  y :: int

text \<open>The module-level variables of the task pane script (the timer is modelled apart).\<close>

record globals =
  lastSelectedText :: string
  lastMousePosition :: position
  lastClickedPosition :: position
  hasMousePositionData :: bool

definition initialGlobals :: globals where
  "initialGlobals = \<lparr>lastSelectedText = [],
     lastMousePosition = \<lparr>x = 0, y = 0\<rparr>,
     lastClickedPosition = \<lparr>x = 0, y = 0\<rparr>,
     hasMousePositionData = False\<rparr>"

text \<open>
  The "Capture Current Position" button and the selection-changed listener of
  \<open>setupMouseTracking\<close> do the same two assignments. No code writes to the
  object in \<open>lastMousePosition\<close>, so sharing it is the same as copying it.
\<close>

definition capturePosition :: "globals \<Rightarrow> globals" where
  "capturePosition g = g\<lparr>lastClickedPosition := lastMousePosition g, hasMousePositionData := True\<rparr>"

record selectionInfo =
  infoText :: "string option"
  shapes :: "shape list"
  pictures :: "shape list"
  detectionMethod :: "string option"
  allShapes :: "shape list option"
  allPictures :: "shape list option"

text \<open>The object literal created at the start of \<open>detectSelectedElement\<close>.\<close>

definition newSelectionInfo :: selectionInfo where
  "newSelectionInfo = \<lparr>infoText = None, shapes = [], pictures = [],
     detectionMethod = None, allShapes = None, allPictures = None\<rparr>"

section \<open>Helpers shared by the strategies\<close>

text \<open>\<open>if (!selectionInfo.detectionMethod) selectionInfo.detectionMethod = tag\<close>\<close>

definition unclaimed :: "selectionInfo \<Rightarrow> bool" where
  "unclaimed si = (case detectionMethod si of None \<Rightarrow> True | Some m \<Rightarrow> m = [])"

definition claimMethod :: "string \<Rightarrow> selectionInfo \<Rightarrow> selectionInfo" where
  "claimMethod tag si = (if unclaimed si then si\<lparr>detectionMethod := Some tag\<rparr> else si)"

text \<open>The bounds test written out in both position-based strategies.\<close>

definition containsPosition :: "position \<Rightarrow> shape \<Rightarrow> bool" where
  "containsPosition p s \<longleftrightarrow>
     x p \<ge> left s \<and> x p \<le> left s + width s \<and> y p \<ge> top' s \<and> y p \<le> top' s + height s"

text \<open>
  \<open>xs.sort((a, b) => key(b) - key(a))\<close>: the sort is stable, so it is the insertion
  sort on the negated key.
\<close>

definition sortDescending :: "('a \<Rightarrow> int) \<Rightarrow> 'a list \<Rightarrow> 'a list" where
  "sortDescending key xs = sort_key (\<lambda>s. - key s) xs"

definition modifiedTime :: "shape \<Rightarrow> int" where
  "modifiedTime s = (case lastModified s of None \<Rightarrow> 0 | Some t \<Rightarrow> t)"

section \<open>The text channel\<close>

definition detectSelectionText :: "host \<Rightarrow> globals \<times> selectionInfo \<Rightarrow> globals \<times> selectionInfo" where
  "detectSelectionText h st =
     (case st of (g, si) \<Rightarrow>
        (case getSelectedDataAsync h of
           Inl e \<Rightarrow> (g, si)
         | Inr selectedText \<Rightarrow>
             if length selectedText > 0
             then (g\<lparr>lastSelectedText := selectedText\<rparr>,
                   si\<lparr>infoText := Some selectedText, detectionMethod := Some ''text''\<rparr>)
             else (g, si)))"

section \<open>The picture-specific cascade\<close>

definition picturesSelected :: "shape list \<Rightarrow> selectionInfo \<Rightarrow> selectionInfo" where
  "picturesSelected pics si =
     (let selectedPictures = filter (\<lambda>pic. isSelected pic = Some True) pics
      in if length selectedPictures > 0
         then claimMethod ''picture-isSelected'' (si\<lparr>pictures := selectedPictures\<rparr>)
         else si)"

definition picturesAtClick :: "globals \<Rightarrow> shape list \<Rightarrow> selectionInfo \<Rightarrow> selectionInfo" where
  "picturesAtClick g pics si =
     (if length (pictures si) = 0 \<and> hasMousePositionData g
      then (let picturesAtPosition = filter (containsPosition (lastClickedPosition g)) pics
            in if length picturesAtPosition > 0
               then claimMethod ''picture-position''
                      (si\<lparr>pictures := sortDescending zIndex picturesAtPosition\<rparr>)
               else si)
      else si)"

definition storeAllPictures :: "shape list \<Rightarrow> selectionInfo \<Rightarrow> selectionInfo" where
  "storeAllPictures pics si =
     (if length (pictures si) = 0 then si\<lparr>allPictures := Some pics\<rparr> else si)"

definition detectPicturesSpecifically :: "host \<Rightarrow> globals \<Rightarrow> selectionInfo \<Rightarrow> selectionInfo" where
  "detectPicturesSpecifically h g si =
     (case getSelectedSlides h of
        Inl e \<Rightarrow> si
      | Inr [] \<Rightarrow> si
      | Inr (sl # _) \<Rightarrow>
          (case slideShapes sl of
             Inl e \<Rightarrow> si
           | Inr None \<Rightarrow> si
           | Inr (Some items) \<Rightarrow>
               if length items = 0 then si
               else (let pics = filter (\<lambda>s. type' s = ''Picture'') items
                     in if length pics = 0 then si
                        else storeAllPictures pics
                               (picturesAtClick g pics (picturesSelected pics si)))))"

section \<open>The shape cascade\<close>

text \<open>
  Each approach is one block of \<open>detectShapesDirectly\<close>: \<open>Some\<close> is the selection
  info with which the block resolves and returns, \<open>None\<close> is falling through to the
  next block (also when the block's own \<open>catch\<close> swallowed an error). The shapes a
  query returns are taken with their properties loaded; an error anywhere inside the
  \<open>try\<close> of a block is the one \<open>Inl\<close> of its query.
\<close>

definition approach1 :: "host \<Rightarrow> selectionInfo \<Rightarrow> selectionInfo option" where
  "approach1 h si =
     (case getSelection h of
        Inl selectionError \<Rightarrow> None
      | Inr selectedShapes \<Rightarrow>
          if length selectedShapes > 0
          then Some (claimMethod ''direct-selection'' (si\<lparr>shapes := selectedShapes\<rparr>))
          else None)"

definition approach2 :: "host \<Rightarrow> selectionInfo \<Rightarrow> selectionInfo option" where
  "approach2 h si =
     (case getActiveView h of
        Inl viewError \<Rightarrow> None
      | Inr None \<Rightarrow> None
      | Inr (Some selectedShapes) \<Rightarrow>
          if length selectedShapes > 0
          then Some (claimMethod ''active-view'' (si\<lparr>shapes := selectedShapes\<rparr>))
          else None)"

definition approach3 :: "shape list \<Rightarrow> selectionInfo \<Rightarrow> selectionInfo option" where
  "approach3 items si =
     (let selectedShapes = filter (\<lambda>s. isSelected s = Some True) items
      in if length selectedShapes > 0
         then Some (claimMethod ''isSelected'' (si\<lparr>shapes := selectedShapes\<rparr>))
         else None)"

definition approach4 :: "host \<Rightarrow> shape list \<Rightarrow> selectionInfo \<Rightarrow> selectionInfo option" where
  "approach4 h items si =
     (case lastModifiedSync h of
        Some modifiedError \<Rightarrow> None
      | None \<Rightarrow>
          (let shapesWithModifiedTime = filter (\<lambda>s. lastModified s \<noteq> None) items
           in if length shapesWithModifiedTime > 0
              then (case sortDescending modifiedTime shapesWithModifiedTime of
                      [] \<Rightarrow> None
                    | mostRecentShape # _ \<Rightarrow>
                        Some (claimMethod ''lastModified'' (si\<lparr>shapes := [mostRecentShape]\<rparr>)))
              else None))"

definition approach5 :: "globals \<Rightarrow> shape list \<Rightarrow> selectionInfo \<Rightarrow> selectionInfo option" where
  "approach5 g items si =
     (let shapesAtPosition = filter (containsPosition (lastClickedPosition g)) items
      in if length shapesAtPosition > 0
         then Some (claimMethod ''position''
                      (si\<lparr>shapes := sortDescending zIndex shapesAtPosition\<rparr>))
         else None)"

definition approach6 :: "shape list \<Rightarrow> selectionInfo \<Rightarrow> selectionInfo option" where
  "approach6 items si =
     (let sortedShapes = sortDescending zIndex items
      in if length sortedShapes > 0 then Some (si\<lparr>allShapes := Some items\<rparr>) else None)"

text \<open>
  The cascade, with the list of the approaches it entered, in order. An error outside
  the approaches' own \<open>try\<close> blocks reaches the outer \<open>catch\<close>, which resolves with
  the selection info as it is.
\<close>

datatype approach = Approach1 | Approach2 | Approach3 | Approach4 | Approach5 | Approach6

definition cascadeFrom5 :: "globals \<Rightarrow> shape list \<Rightarrow> selectionInfo \<Rightarrow> approach list \<times> selectionInfo" where
  "cascadeFrom5 g items si =
     (let at5 = (if hasMousePositionData g then approach5 g items si else None);
          tr5 = (if hasMousePositionData g then [Approach5] else [])
      in case at5 of
           Some si' \<Rightarrow> (tr5, si')
         | None \<Rightarrow>
             (case approach6 items si of
                Some si' \<Rightarrow> (tr5 @ [Approach6], si')
              | None \<Rightarrow> (tr5 @ [Approach6], si\<lparr>allShapes := Some items\<rparr>)))"

definition cascadeFrom3 :: "host \<Rightarrow> globals \<Rightarrow> shape list \<Rightarrow> selectionInfo \<Rightarrow> approach list \<times> selectionInfo" where
  "cascadeFrom3 h g items si =
     (case approach3 items si of
        Some si' \<Rightarrow> ([Approach3], si')
      | None \<Rightarrow>
          (case approach4 h items si of
             Some si' \<Rightarrow> ([Approach3, Approach4], si')
           | None \<Rightarrow>
               (case cascadeFrom5 g items si of
                  (tr, si') \<Rightarrow> ([Approach3, Approach4] @ tr, si'))))"

definition runShapeCascade :: "host \<Rightarrow> globals \<Rightarrow> selectionInfo \<Rightarrow> approach list \<times> selectionInfo" where
  "runShapeCascade h g si =
     (case getSelectedSlides h of
        Inl e \<Rightarrow> ([], si)
      | Inr [] \<Rightarrow> ([], si)
      | Inr (sl # _) \<Rightarrow>
          (case approach1 h si of
             Some si' \<Rightarrow> ([Approach1], si')
           | None \<Rightarrow>
               (case approach2 h si of
                  Some si' \<Rightarrow> ([Approach1, Approach2], si')
                | None \<Rightarrow>
                    (case slideShapes sl of
                       Inl e \<Rightarrow> ([Approach1, Approach2], si)
                     | Inr None \<Rightarrow> ([Approach1, Approach2], si)
                     | Inr (Some items) \<Rightarrow>
                         if length items = 0 then ([Approach1, Approach2], si)
                         else (case cascadeFrom3 h g items si of
                                 (tr, si') \<Rightarrow> ([Approach1, Approach2] @ tr, si'))))))"

definition detectShapesDirectly :: "host \<Rightarrow> globals \<Rightarrow> selectionInfo \<Rightarrow> selectionInfo" where
  "detectShapesDirectly h g si = snd (runShapeCascade h g si)"

definition attemptedApproaches :: "host \<Rightarrow> globals \<Rightarrow> selectionInfo \<Rightarrow> approach list" where
  "attemptedApproaches h g si = fst (runShapeCascade h g si)"

section \<open>The report\<close>

text \<open>Template literals render a whole number in decimal, with a minus sign when negative.\<close>

fun showNat :: "nat \<Rightarrow> string" where
  "showNat n = (if n < 10 then [char_of (48 + n)]
                else showNat (n div 10) @ [char_of (48 + n mod 10)])"

declare showNat.simps [simp del]

definition showInt :: "int \<Rightarrow> string" where
  "showInt i = (if i < 0 then ''-'' @ showNat (nat (- i)) else showNat (nat i))"

text \<open>\<open>a || b\<close> on strings.\<close>

definition orElse :: "string \<Rightarrow> string \<Rightarrow> string" where
  "orElse a b = (if a \<noteq> [] then a else b)"

definition quoted :: "string \<Rightarrow> string" where
  "quoted s = [CHR 0x22] @ s @ [CHR 0x22]"

definition getPictureDetailsString :: "shape \<Rightarrow> nat \<Rightarrow> string" where
  "getPictureDetailsString picture index =
     showNat (index + 1) @ ''. '' @ orElse (name picture) ''Unnamed Picture''
       @ '' (ID: '' @ id' picture @ '')\<newline>''
     @ ''   Type: Picture/Image\<newline>''
     @ ''   Position: ('' @ showInt (left picture) @ '', '' @ showInt (top' picture) @ '')\<newline>''
     @ ''   Size: '' @ showInt (width picture) @ '' x '' @ showInt (height picture) @ ''\<newline>''
     @ ''   Z-Index: '' @ showInt (zIndex picture) @ ''\<newline>''
     @ (if altTextDescription picture \<noteq> []
        then ''   Alt Text: '' @ altTextDescription picture @ ''\<newline>'' else [])
     @ (if altTextTitle picture \<noteq> []
        then ''   Alt Text Title: '' @ altTextTitle picture @ ''\<newline>'' else [])
     @ (case imageData picture of
          None \<Rightarrow> []
        | Some format \<Rightarrow>
            if format \<noteq> [] then ''   Image Format: '' @ format @ ''\<newline>'' else [])
     @ ''\<newline>''"

definition elementTypeLines :: "shape \<Rightarrow> string" where
  "elementTypeLines s =
     (if type' s = ''Picture'' then
        ''   Element Type: Image/Picture\<newline>''
        @ (case imageData s of
             None \<Rightarrow> []
           | Some format \<Rightarrow> ''   Image Format: '' @ orElse format ''Unknown'' @ ''\<newline>'')
        @ (if altTextDescription s \<noteq> []
           then ''   Alt Text: '' @ altTextDescription s @ ''\<newline>'' else [])
        @ (if altTextTitle s \<noteq> []
           then ''   Alt Text Title: '' @ altTextTitle s @ ''\<newline>'' else [])
      else if type' s = ''Group'' then
        ''   Element Type: Group (contains multiple elements)\<newline>''
      else if type' s = ''Table'' then ''   Element Type: Table\<newline>''
      else if type' s = ''Chart'' then ''   Element Type: Chart\<newline>''
      else if type' s = ''SmartArt'' then ''   Element Type: SmartArt\<newline>''
      else [])"

definition textLine :: "shape \<Rightarrow> string" where
  "textLine s =
     (if text' s \<noteq> [] then
        (let maxTextLength = 100;
             displayText = (if length (text' s) > maxTextLength
                            then take maxTextLength (text' s) @ ''...''
                            else text' s)
         in ''   Text: '' @ quoted displayText @ ''\<newline>'')
      else [])"

definition getDetailedShapeInfo :: "shape \<Rightarrow> nat \<Rightarrow> string" where
  "getDetailedShapeInfo s index =
     showNat (index + 1) @ ''. '' @ orElse (name s) ''Unnamed''
       @ '' (ID: '' @ id' s @ '')\<newline>''
     @ ''   Type: '' @ type' s @ ''\<newline>''
     @ elementTypeLines s
     @ ''   Position: ('' @ showInt (left s) @ '', '' @ showInt (top' s) @ '')\<newline>''
     @ ''   Size: '' @ showInt (width s) @ '' x '' @ showInt (height s) @ ''\<newline>''
     @ ''   Z-Index: '' @ showInt (zIndex s) @ ''\<newline>''
     @ textLine s
     @ ''\<newline>''"

text \<open>
  \<open>xs.forEach((e, index) => message += f(e, index))\<close>.
\<close>

definition forEachIndexed :: "('a \<Rightarrow> nat \<Rightarrow> string) \<Rightarrow> 'a list \<Rightarrow> string" where
  "forEachIndexed f xs = concat (map (\<lambda>(index, e). f e index) (enumerate 0 xs))"

text \<open>
  \<open>elementsByType\<close> is an object used as a dictionary from type name to array; its
  keys are enumerated in insertion order (type names are not array indices), so it is
  an association list.
\<close>

fun pushByType :: "string \<Rightarrow> 'a \<Rightarrow> (string \<times> 'a list) list \<Rightarrow> (string \<times> 'a list) list" where
  "pushByType k s [] = [(k, [s])]"
| "pushByType k s ((k', ss) # rest) =
     (if k = k' then (k', ss @ [s]) # rest else (k', ss) # pushByType k s rest)"

definition groupByType :: "shape list \<Rightarrow> (string \<times> shape list) list" where
  "groupByType ss = foldl (\<lambda>acc s. pushByType (orElse (type' s) ''Unknown'') s acc) [] ss"

definition elementSummary :: "shape \<Rightarrow> nat \<Rightarrow> string" where
  "elementSummary element index =
     showNat (index + 1) @ ''. '' @ orElse (name element) ''Unnamed''
       @ '' (ID: '' @ id' element @ '')\<newline>''
     @ ''   Position: ('' @ showInt (left element) @ '', '' @ showInt (top' element) @ '')\<newline>''
     @ ''   Size: '' @ showInt (width element) @ '' x '' @ showInt (height element) @ ''\<newline>''
     @ ''   Z-Index: '' @ showInt (zIndex element) @ ''\<newline>\<newline>''"

definition typeSection :: "string \<times> shape list \<Rightarrow> string" where
  "typeSection kv =
     (case kv of (k, elements) \<Rightarrow>
        ''== '' @ k @ '' Elements ('' @ showNat (length elements) @ '') ==\<newline>\<newline>''
        @ forEachIndexed elementSummary elements)"

definition noSelectionMessage :: "selectionInfo \<Rightarrow> string" where
  "noSelectionMessage si =
     (let shapesAll = (case allShapes si of None \<Rightarrow> [] | Some ss \<Rightarrow> ss);
          picturesAll = (case allPictures si of None \<Rightarrow> [] | Some ps \<Rightarrow> ps)
      in ''No element is currently selected.\<newline>\<newline>''
         @ (if length shapesAll > 0 \<or> length picturesAll > 0 then
              (let byShape = groupByType shapesAll;
                   elementsByType =
                     (if length picturesAll > 0 \<and> map_of byShape ''Picture'' = None
                      then byShape @ [(''Picture'', picturesAll)] else byShape)
               in ''All elements on current slide (''
                    @ showNat (length shapesAll + length picturesAll) @ '' total):\<newline>\<newline>''
                  @ concat (map typeSection elementsByType)
                  @ ''\<newline>Tips for selecting elements:\<newline>''
                  @ ''1. Click directly on the element you want to examine\<newline>''
                  @ ''2. Press the 'Get Info' button immediately after selecting\<newline>''
                  @ ''3. For text elements, try selecting some text within the element\<newline>''
                  @ ''4. Try using the 'Capture Current Position' button while hovering over an element'')
            else ''No elements found on the current slide.''))"

definition hasSelection :: "selectionInfo \<Rightarrow> bool" where
  "hasSelection si \<longleftrightarrow>
     (case infoText si of None \<Rightarrow> False | Some t \<Rightarrow> t \<noteq> [])
     \<or> length (shapes si) > 0 \<or> length (pictures si) > 0"

definition selectedTextPart :: "selectionInfo \<Rightarrow> string" where
  "selectedTextPart si =
     (case infoText si of
        None \<Rightarrow> []
      | Some t \<Rightarrow> if t \<noteq> [] then ''SELECTED TEXT:\<newline>'' @ quoted t @ ''\<newline>\<newline>'' else [])"

definition selectedPicturesPart :: "selectionInfo \<Rightarrow> string" where
  "selectedPicturesPart si =
     (if length (pictures si) > 0 then
        ''SELECTED PICTURE'' @ (if length (pictures si) > 1 then ''S'' else []) @ '':\<newline>''
        @ forEachIndexed getPictureDetailsString (pictures si)
        @ ''\<newline>''
      else [])"

definition selectedShapesPart :: "selectionInfo \<Rightarrow> string" where
  "selectedShapesPart si =
     (if length (shapes si) > 0 then
        (let nonPictureShapes =
               filter (\<lambda>s. type' s \<noteq> ''Picture''
                            \<or> \<not> list_ex (\<lambda>pic. id' pic = id' s) (pictures si)) (shapes si)
         in if length nonPictureShapes > 0 then
              ''SELECTED SHAPE'' @ (if length nonPictureShapes > 1 then ''S'' else []) @ '':\<newline>''
              @ forEachIndexed getDetailedShapeInfo nonPictureShapes
            else [])
      else [])"

definition detectionMethodPart :: "selectionInfo \<Rightarrow> string" where
  "detectionMethodPart si =
     (case detectionMethod si of
        None \<Rightarrow> []
      | Some m \<Rightarrow> if m \<noteq> [] then ''\<newline>Detection method: '' @ m else [])"

definition selectionMessage :: "selectionInfo \<Rightarrow> string" where
  "selectionMessage si =
     ''=== CURRENT SELECTION INFO ===\<newline>\<newline>''
     @ selectedTextPart si @ selectedPicturesPart si @ selectedShapesPart si
     @ detectionMethodPart si"

definition displaySelectionInfo :: "selectionInfo \<Rightarrow> string" where
  "displaySelectionInfo si =
     (if \<not> hasSelection si then noSelectionMessage si else selectionMessage si)"

section \<open>One detection pass\<close>

text \<open>
  \<open>detectSelectedElement\<close> starts the three channels on one fresh selection info and
  displays it when all three have resolved. Every write of a channel to the selection
  info happens in one synchronous stretch after its last host round trip, so a pass is
  the three updates applied in the order in which the channels complete, which the
  host decides.
\<close>

datatype channel = TextChannel | PictureChannel | ShapeChannel

fun runChannel :: "host \<Rightarrow> channel \<Rightarrow> globals \<times> selectionInfo \<Rightarrow> globals \<times> selectionInfo" where
  "runChannel h TextChannel st = detectSelectionText h st"
| "runChannel h PictureChannel (g, si) = (g, detectPicturesSpecifically h g si)"
| "runChannel h ShapeChannel (g, si) = (g, detectShapesDirectly h g si)"

definition runChannels :: "host \<Rightarrow> channel list \<Rightarrow> globals \<times> selectionInfo \<Rightarrow> globals \<times> selectionInfo" where
  "runChannels h order st = foldl (\<lambda>st c. runChannel h c st) st order"


definition passInfo :: "channel list \<Rightarrow> host \<Rightarrow> globals \<Rightarrow> selectionInfo" where
  "passInfo order h g = snd (runChannels h order (g, newSelectionInfo))"

text \<open>The text shown in the task pane at the end of the pass.\<close>

definition detectSelectedElement :: "channel list \<Rightarrow> host \<Rightarrow> globals \<Rightarrow> string" where
  "detectSelectedElement order h g = displaySelectionInfo (passInfo order h g)"

section \<open>The older script: direct display without a selection info\<close>

text \<open>
  The second script has no selection info object: each function writes the task pane
  text itself. Its functions carry the suffix \<open>_alt\<close>; each returns the text it leaves
  in the task pane.
\<close>

definition getDetailedShapeInfo_alt :: "shape \<Rightarrow> nat \<Rightarrow> string" where
  "getDetailedShapeInfo_alt s index =
     showNat (index + 1) @ ''. '' @ orElse (name s) ''Unnamed''
       @ '' (ID: '' @ id' s @ '')\<newline>''
     @ ''   Type: '' @ type' s @ ''\<newline>''
     @ (if type' s = ''Picture'' then ''   Element Type: Image/Picture\<newline>''
        else if type' s = ''Group'' then
          ''   Element Type: Group (contains multiple elements)\<newline>''
        else if type' s = ''Table'' then ''   Element Type: Table\<newline>''
        else if type' s = ''Chart'' then ''   Element Type: Chart\<newline>''
        else if type' s = ''SmartArt'' then ''   Element Type: SmartArt\<newline>''
        else [])
     @ ''   Position: ('' @ showInt (left s) @ '', '' @ showInt (top' s) @ '')\<newline>''
     @ ''   Size: '' @ showInt (width s) @ '' x '' @ showInt (height s) @ ''\<newline>''
     @ ''   Z-Index: '' @ showInt (zIndex s) @ ''\<newline>''
     @ textLine s
     @ ''\<newline>''"

definition foundMessage_alt :: "string \<Rightarrow> shape list \<Rightarrow> string" where
  "foundMessage_alt via selectedShapes =
     ''Found '' @ showNat (length selectedShapes) @ '' selected element(s)'' @ via @ '':\<newline>\<newline>''
     @ forEachIndexed getDetailedShapeInfo_alt selectedShapes"

definition bestGuessMessage_alt :: "shape \<Rightarrow> string" where
  "bestGuessMessage_alt topShape =
     ''Best guess of selected element (top-most element):\<newline>\<newline>''
     @ getDetailedShapeInfo_alt topShape 0
     @ ''Note: This is a best guess based on the top-most element on the slide.\<newline>''
     @ ''For more accurate results, try clicking directly on an element before pressing 'Get Info'.\<newline>\<newline>''"

definition typeSection_alt :: "string \<times> (shape \<times> nat) list \<Rightarrow> string" where
  "typeSection_alt kv =
     (case kv of (k, entries) \<Rightarrow>
        ''== '' @ k @ '' Elements ('' @ showNat (length entries) @ '') ==\<newline>\<newline>''
        @ concat (map (\<lambda>(s, index). elementSummary s index) entries))"

definition allElementsMessage_alt :: "shape list \<Rightarrow> string" where
  "allElementsMessage_alt items =
     (let shapesByType =
            foldl (\<lambda>acc (index, s). pushByType (orElse (type' s) ''Unknown'') (s, index) acc)
              [] (enumerate 0 items)
      in ''Could not identify which element is selected.\<newline>\<newline>''
         @ ''All elements on current slide ('' @ showNat (length items) @ '' total):\<newline>\<newline>''
         @ concat (map typeSection_alt shapesByType)
         @ ''\<newline>Tips for selecting elements:\<newline>''
         @ ''1. Click directly on the element you want to examine\<newline>''
         @ ''2. Press the 'Get Info' button immediately after selecting\<newline>''
         @ ''3. For text elements, try selecting some text within the element'')"

text \<open>Approaches 3 and 4 and the list of all elements, once the slide's shapes are read.\<close>

definition cascadeFrom3_alt :: "host \<Rightarrow> shape list \<Rightarrow> approach list \<times> string" where
  "cascadeFrom3_alt h items =
     (let selectedShapes = filter (\<lambda>s. isSelected s = Some True) items
      in if length selectedShapes > 0 then ([Approach3], foundMessage_alt [] selectedShapes)
         else (case sortDescending zIndex items of
                 [] \<Rightarrow> ([Approach3, Approach4], allElementsMessage_alt items)
               | topShape # _ \<Rightarrow>
                   (case topShapeSync h of
                      Some zOrderError \<Rightarrow> ([Approach3, Approach4], allElementsMessage_alt items)
                    | None \<Rightarrow> ([Approach3, Approach4], bestGuessMessage_alt topShape))))"

definition runShapeCascade_alt :: "host \<Rightarrow> approach list \<times> string" where
  "runShapeCascade_alt h =
     (case getSelectedSlides h of
        Inl e \<Rightarrow> ([], ''Error detecting shapes: '' @ errorMessage e)
      | Inr [] \<Rightarrow> ([], ''No slide is currently selected.'')
      | Inr (sl # _) \<Rightarrow>
          (let after1 = (case getSelection h of Inl selectionError \<Rightarrow> [] | Inr ss \<Rightarrow> ss)
           in if length after1 > 0 then ([Approach1], foundMessage_alt [] after1)
              else (let after2 = (case getActiveView h of
                                    Inl viewError \<Rightarrow> []
                                  | Inr None \<Rightarrow> []
                                  | Inr (Some ss) \<Rightarrow> ss)
                    in if length after2 > 0
                       then ([Approach1, Approach2], foundMessage_alt '' via active view'' after2)
                       else (case slideShapes sl of
                               Inl e \<Rightarrow>
                                 ([Approach1, Approach2], ''Error detecting shapes: '' @ errorMessage e)
                             | Inr None \<Rightarrow>
                                 ([Approach1, Approach2], ''No elements found on the current slide.'')
                             | Inr (Some items) \<Rightarrow>
                                 if length items = 0
                                 then ([Approach1, Approach2], ''No elements found on the current slide.'')
                                 else (case cascadeFrom3_alt h items of
                                         (tr, message) \<Rightarrow> ([Approach1, Approach2] @ tr, message))))))"

definition detectShapesDirectly_alt :: "host \<Rightarrow> string" where
  "detectShapesDirectly_alt h = snd (runShapeCascade_alt h)"









section \<open>The debounced selection-changed handler\<close>

text \<open>
  Both scripts have the same handler. The browser's timers are a list of pending
  (identifier, due time) pairs; identifiers are handed out from 1. The only callback
  ever scheduled starts a detection pass, so running a timer records its due time, the
  earliest moment the pass can start.
\<close>

record eventLoop =
  selectionChangeTimeout :: "nat option"
  nextTimerId :: nat
  pendingTimers :: "(nat \<times> nat) list"
  detectionPasses :: "nat list"

definition initialEventLoop :: eventLoop where
  "initialEventLoop = \<lparr>selectionChangeTimeout = None, nextTimerId = 1,
     pendingTimers = [], detectionPasses = []\<rparr>"

definition clearTimeout :: "nat \<Rightarrow> eventLoop \<Rightarrow> eventLoop" where
  "clearTimeout timerId el =
     el\<lparr>pendingTimers := filter (\<lambda>(i, due). i \<noteq> timerId) (pendingTimers el)\<rparr>"

definition setTimeout :: "nat \<Rightarrow> nat \<Rightarrow> eventLoop \<Rightarrow> nat \<times> eventLoop" where
  "setTimeout now delay el =
     (nextTimerId el,
      el\<lparr>pendingTimers := pendingTimers el @ [(nextTimerId el, now + delay)],
         nextTimerId := nextTimerId el + 1\<rparr>)"

definition selectionChangedHandler :: "nat \<Rightarrow> eventLoop \<Rightarrow> eventLoop" where
  "selectionChangedHandler now el =
     (let el1 = (case selectionChangeTimeout el of
                   None \<Rightarrow> el
                 | Some timerId \<Rightarrow> if timerId \<noteq> 0 then clearTimeout timerId el else el)
      in case setTimeout now 300 el1 of
           (timerId, el2) \<Rightarrow> el2\<lparr>selectionChangeTimeout := Some timerId\<rparr>)"

text \<open>The timers due at or before \<open>now\<close> run, earliest first.\<close>

definition runDueTimers :: "nat \<Rightarrow> eventLoop \<Rightarrow> eventLoop" where
  "runDueTimers now el =
     el\<lparr>pendingTimers := filter (\<lambda>(i, due). \<not> due \<le> now) (pendingTimers el),
        detectionPasses := detectionPasses el
          @ sort (map snd (filter (\<lambda>(i, due). due \<le> now) (pendingTimers el)))\<rparr>"

fun runEvents :: "nat list \<Rightarrow> eventLoop \<Rightarrow> eventLoop" where
  "runEvents [] el = el"
| "runEvents (t # ts) el = runEvents ts (selectionChangedHandler t (runDueTimers t el))"

text \<open>After the last event nothing cancels a timer any more: all that are pending run.\<close>

definition runRemainingTimers :: "eventLoop \<Rightarrow> eventLoop" where
  "runRemainingTimers el =
     el\<lparr>pendingTimers := [],
        detectionPasses := detectionPasses el @ sort (map snd (pendingTimers el))\<rparr>"

definition passesFired :: "nat list \<Rightarrow> nat list" where
  "passesFired events = detectionPasses (runRemainingTimers (runEvents events initialEventLoop))"

text \<open>A burst: event times in order, each less than 300 after the one before.\<close>

fun burst :: "nat list \<Rightarrow> bool" where
  "burst [] = True"
| "burst [t] = True"
| "burst (t # u # ts) = (t \<le> u \<and> u < t + 300 \<and> burst (u # ts))"

section \<open>Conditions on the host\<close>

text \<open>
  What a strategy sees when it finds nothing: its query raised (and the error was
  caught) or gave no shape.
\<close>

definition noTextSelection :: "host \<Rightarrow> bool" where
  "noTextSelection h = (case getSelectedDataAsync h of Inl e \<Rightarrow> True | Inr t \<Rightarrow> t = [])"

definition noDirectSelection :: "host \<Rightarrow> bool" where
  "noDirectSelection h = (case getSelection h of Inl e \<Rightarrow> True | Inr ss \<Rightarrow> ss = [])"

definition noActiveViewSelection :: "host \<Rightarrow> bool" where
  "noActiveViewSelection h =
     (case getActiveView h of Inl e \<Rightarrow> True | Inr None \<Rightarrow> True | Inr (Some ss) \<Rightarrow> ss = [])"

text \<open>The shapes of the first selected slide, when the top-level reads succeed.\<close>

definition firstSlideShapes :: "host \<Rightarrow> shape list option" where
  "firstSlideShapes h =
     (case getSelectedSlides h of
        Inr (sl # _) \<Rightarrow> (case slideShapes sl of Inr (Some items) \<Rightarrow> Some items | _ \<Rightarrow> None)
      | _ \<Rightarrow> None)"

section \<open>Example inputs and proof vocabulary\<close>

text \<open>The picture of the report example.\<close>

definition logoPicture :: shape where
  "logoPicture = \<lparr>name = ''Logo'', id' = ''p1'', type' = ''Picture'', text' = [],
     left = 10, top' = 20, width = 100, height = 50, zIndex = 2, isSelected = None,
     lastModified = None, altTextDescription = ''A logo'', altTextTitle = [], imageData = None\<rparr>"

definition reportMentionsLogo :: "string \<Rightarrow> bool" where
  "reportMentionsLogo report \<longleftrightarrow>
     sublist ''Logo'' report \<and> sublist ''(ID: p1)'' report \<and> sublist ''(10, 20)'' report
     \<and> sublist ''100 x 50'' report \<and> sublist ''A logo'' report"

text \<open>
  The event loop right after the handler ran at time \<open>t\<close>: the remembered timer is the
  only one pending and is due at \<open>t + 300\<close>; \<open>ps\<close> are the passes started so far.
\<close>

definition armed :: "nat \<Rightarrow> nat list \<Rightarrow> eventLoop \<Rightarrow> bool" where
  "armed t ps el \<longleftrightarrow>
     (case selectionChangeTimeout el of
        None \<Rightarrow> False
      | Some timerId \<Rightarrow> timerId \<noteq> 0 \<and> pendingTimers el = [(timerId, t + 300)])
     \<and> nextTimerId el \<noteq> 0 \<and> detectionPasses el = ps"

text \<open>Shapes, hosts and cursor states used as concrete inputs.\<close>

definition plainShape :: shape where
  "plainShape = \<lparr>name = ''Box'', id' = ''s1'', type' = ''GeometricShape'', text' = [],
     left = 0, top' = 0, width = 200, height = 100, zIndex = 1, isSelected = None,
     lastModified = None, altTextDescription = [], altTextTitle = [], imageData = None\<rparr>"

definition hostWith :: "shape list \<Rightarrow> host" where
  "hostWith items = \<lparr>getSelectedDataAsync = Inr [],
     getSelectedSlides = Inr [\<lparr>slideShapes = Inr (Some items)\<rparr>],
     getSelection = Inl (UnsupportedApi ''getSelection is not a function''),
     getActiveView = Inl (UnsupportedApi ''getActiveView is not a function''),
     lastModifiedSync = None, topShapeSync = None\<rparr>"

definition selectedBox :: shape where
  "selectedBox = plainShape\<lparr>isSelected := Some True\<rparr>"

definition otherBox :: shape where
  "otherBox = plainShape\<lparr>name := ''Other'', id' := ''s2'', left := 50, top' := 50, zIndex := 2,
     isSelected := Some False\<rparr>"

definition thirdBox :: shape where
  "thirdBox = plainShape\<lparr>name := ''Third'', id' := ''s3'', left := 500, zIndex := 3,
     isSelected := Some True\<rparr>"

definition backBox :: shape where
  "backBox = plainShape\<lparr>name := ''Back''\<rparr>"

definition frontBox :: shape where
  "frontBox = plainShape\<lparr>name := ''Front'', id' := ''s4'', left := 50, top' := 50, zIndex := 5\<rparr>"

definition farBox :: shape where
  "farBox = plainShape\<lparr>name := ''Far'', id' := ''s5'', left := 1000, zIndex := 9\<rparr>"

definition clickedGlobals :: globals where
  "clickedGlobals = initialGlobals\<lparr>lastClickedPosition := \<lparr>x = 60, y = 60\<rparr>,
     hasMousePositionData := True\<rparr>"

definition oldBox :: shape where
  "oldBox = plainShape\<lparr>name := ''Old'', lastModified := Some 100\<rparr>"

definition newBox :: shape where
  "newBox = plainShape\<lparr>name := ''New'', id' := ''s6'', zIndex := 0, lastModified := Some 200\<rparr>"

definition textHost :: "shape list \<Rightarrow> host" where
  "textHost items = (hostWith items)\<lparr>getSelectedDataAsync := Inr ''Hi''\<rparr>"







section \<open>Properties\<close>

subsection \<open>Sorting in descending order\<close>

lemma sortDescending_set: "set (sortDescending key xs) = set xs"
  by (simp add: sortDescending_def)

lemma sortDescending_length: "length (sortDescending key xs) = length xs"
  by (simp add: sortDescending_def)

lemma sortDescending_head_max:
  assumes "sortDescending key xs = m # rest"
  shows "\<forall>s \<in> set xs. key s \<le> key m"
proof -
  have "sorted (map (\<lambda>s. - key s) (sortDescending key xs))"
    by (simp add: sortDescending_def)
  with assms have "\<forall>s \<in> set rest. - key m \<le> - key s" by simp
  moreover have "set xs = insert m (set rest)"
    using sortDescending_set [of key xs] assms by simp
  ultimately show ?thesis by auto
qed

subsection \<open>The report of one picture\<close>

lemma sublist_inside: "sublist sub d \<Longrightarrow> sublist sub (a @ d @ b)"
  by (meson sublist_appendI sublist_order.order_trans)

lemma reportMentionsLogo_inside:
  "reportMentionsLogo d \<Longrightarrow> reportMentionsLogo (a @ d @ b)"
  by (simp add: reportMentionsLogo_def sublist_inside)

lemma forEachIndexed_single: "forEachIndexed f [e] = f e 0"
  by (simp add: forEachIndexed_def enumerate_eq_zip)

lemma logo_picture_details: "reportMentionsLogo (getPictureDetailsString logoPicture 0)"
  unfolding reportMentionsLogo_def by code_simp

lemma logo_shape_details: "reportMentionsLogo (getDetailedShapeInfo logoPicture 0)"
  unfolding reportMentionsLogo_def by code_simp

lemma pictures_part_logo:
  assumes "pictures si = [logoPicture]"
  shows "reportMentionsLogo (selectedPicturesPart si)"
proof -
  have "selectedPicturesPart si
          = ''SELECTED PICTURE:\<newline>'' @ getPictureDetailsString logoPicture 0 @ ''\<newline>''"
    by (simp add: selectedPicturesPart_def assms forEachIndexed_single)
  then show ?thesis
    by (simp only: reportMentionsLogo_inside [OF logo_picture_details])
qed

lemma shapes_part_logo:
  assumes "pictures si = []" and "shapes si = [logoPicture]"
  shows "reportMentionsLogo (selectedShapesPart si)"
proof -
  have "selectedShapesPart si
          = ''SELECTED SHAPE:\<newline>'' @ getDetailedShapeInfo logoPicture 0 @ []"
    by (simp add: selectedShapesPart_def assms forEachIndexed_single)
  then show ?thesis
    by (simp only: reportMentionsLogo_inside [OF logo_shape_details])
qed

text \<open>
  C9. A selection info whose only picture is the Logo picture (id p1, at (10, 20),
  100 by 50, z-index 2, alt text "A logo"), whether the picture cascade put it in
  \<open>pictures\<close> or the shape cascade put it in \<open>shapes\<close>, is displayed as a report that
  contains "Logo", "(ID: p1)", "(10, 20)", "100 x 50" and "A logo", whatever the other
  fields hold.
\<close>

theorem report_of_logo_picture:
  assumes "pictures si = [logoPicture] \<or> (pictures si = [] \<and> shapes si = [logoPicture])"
  shows "sublist ''Logo'' (displaySelectionInfo si)
       \<and> sublist ''(ID: p1)'' (displaySelectionInfo si)
       \<and> sublist ''(10, 20)'' (displaySelectionInfo si)
       \<and> sublist ''100 x 50'' (displaySelectionInfo si)
       \<and> sublist ''A logo'' (displaySelectionInfo si)"
proof -
  have sel: "hasSelection si" using assms by (auto simp add: hasSelection_def)
  have "reportMentionsLogo (selectionMessage si)"
  proof (cases "pictures si = [logoPicture]")
    case True
    have "selectionMessage si
            = (''=== CURRENT SELECTION INFO ===\<newline>\<newline>'' @ selectedTextPart si)
              @ selectedPicturesPart si @ (selectedShapesPart si @ detectionMethodPart si)"
      by (simp add: selectionMessage_def)
    then show ?thesis
      by (simp only: reportMentionsLogo_inside [OF pictures_part_logo [OF True]])
  next
    case False
    with assms have a: "pictures si = []" and b: "shapes si = [logoPicture]" by auto
    have "selectionMessage si
            = (''=== CURRENT SELECTION INFO ===\<newline>\<newline>'' @ selectedTextPart si
               @ selectedPicturesPart si)
              @ selectedShapesPart si @ detectionMethodPart si"
      by (simp add: selectionMessage_def)
    then show ?thesis
      by (simp only: reportMentionsLogo_inside [OF shapes_part_logo [OF a b]])
  qed
  with sel show ?thesis
    by (simp add: displaySelectionInfo_def reportMentionsLogo_def)
qed

theorem report_of_logo_picture_witness:
  "pictures (newSelectionInfo\<lparr>pictures := [logoPicture]\<rparr>) = [logoPicture]
   \<and> sublist ''Logo'' (displaySelectionInfo (newSelectionInfo\<lparr>pictures := [logoPicture]\<rparr>))
   \<and> sublist ''(ID: p1)'' (displaySelectionInfo (newSelectionInfo\<lparr>pictures := [logoPicture]\<rparr>))
   \<and> sublist ''(10, 20)'' (displaySelectionInfo (newSelectionInfo\<lparr>pictures := [logoPicture]\<rparr>))
   \<and> sublist ''100 x 50'' (displaySelectionInfo (newSelectionInfo\<lparr>pictures := [logoPicture]\<rparr>))
   \<and> sublist ''A logo'' (displaySelectionInfo (newSelectionInfo\<lparr>pictures := [logoPicture]\<rparr>))"
  using report_of_logo_picture [of "newSelectionInfo\<lparr>pictures := [logoPicture]\<rparr>"]
  by simp

subsection \<open>Debouncing\<close>

lemma first_event_arms:
  "armed t [] (selectionChangedHandler t (runDueTimers t initialEventLoop))"
  by (simp add: armed_def selectionChangedHandler_def runDueTimers_def initialEventLoop_def
      setTimeout_def)

lemma next_event_rearms:
  assumes "armed t0 ps el" and "t < t0 + 300"
  shows "armed t ps (selectionChangedHandler t (runDueTimers t el))"
proof -
  from assms(1) obtain i where i: "selectionChangeTimeout el = Some i" "i \<noteq> 0"
    "pendingTimers el = [(i, t0 + 300)]" "nextTimerId el \<noteq> 0" "detectionPasses el = ps"
    by (auto simp add: armed_def split: option.splits)
  from i assms(2) show ?thesis
    by (simp add: armed_def selectionChangedHandler_def runDueTimers_def setTimeout_def
        clearTimeout_def)
qed

lemma burst_keeps_one_timer:
  "burst (t0 # ts) \<Longrightarrow> armed t0 ps el \<Longrightarrow> armed (last (t0 # ts)) ps (runEvents ts el)"
proof (induction ts arbitrary: t0 el)
  case Nil
  then show ?case by simp
next
  case (Cons t ts)
  from Cons.prems have "t < t0 + 300" and b: "burst (t # ts)" by simp_all
  with Cons.prems have "armed t ps (selectionChangedHandler t (runDueTimers t el))"
    by (simp add: next_event_rearms)
  from Cons.IH [OF b this] show ?case by simp
qed

text \<open>
  C5. For a non-empty burst of selection-changed events (times in order, every gap
  below 300), no pass starts while the events arrive, exactly one timer is pending
  after the last event, and exactly one detection pass starts in all: when the timer
  set by the last event is due, 300 after that event.
\<close>

theorem burst_fires_once_after_quiet_period:
  assumes "burst events" and "events \<noteq> []"
  shows "passesFired events = [last events + 300]
       \<and> detectionPasses (runEvents events initialEventLoop) = []
       \<and> map snd (pendingTimers (runEvents events initialEventLoop)) = [last events + 300]"
proof -
  from assms(2) obtain t ts where ev: "events = t # ts" by (cases events) auto
  have "armed t [] (runEvents [t] initialEventLoop)"
    using first_event_arms [of t] by simp
  with assms(1) ev have "armed (last events) [] (runEvents events initialEventLoop)"
    using burst_keeps_one_timer
      [of t ts "[]" "selectionChangedHandler t (runDueTimers t initialEventLoop)"]
    by simp
  then show ?thesis
    by (auto simp add: passesFired_def runRemainingTimers_def armed_def split: option.splits)
qed

theorem burst_fires_once_after_quiet_period_witness:
  "burst [0, 100, 200, 250] \<and> [0, 100, 200, 250] \<noteq> ([] :: nat list)
   \<and> passesFired [0, 100, 200, 250] = [550]
   \<and> 300 \<notin> set (passesFired [0, 100, 200, 250])
   \<and> 400 \<notin> set (passesFired [0, 100, 200, 250])"
  using burst_fires_once_after_quiet_period [of "[0, 100, 200, 250]"]
  by simp

subsection \<open>The shape cascade\<close>

lemma claimMethod_shapes [simp]: "shapes (claimMethod tag si) = shapes si"
  by (simp add: claimMethod_def)

lemma claimMethod_pictures [simp]: "pictures (claimMethod tag si) = pictures si"
  by (simp add: claimMethod_def)

lemma claimMethod_method:
  "detectionMethod (claimMethod tag si) = (if unclaimed si then Some tag else detectionMethod si)"
  by (simp add: claimMethod_def)

lemma approach5_contains:
  assumes "s \<in> set items" and "containsPosition (lastClickedPosition g) s"
  shows "\<exists>si'. approach5 g items si = Some si' \<and> s \<in> set (shapes si')"
proof -
  let ?at = "filter (containsPosition (lastClickedPosition g)) items"
  from assms have "s \<in> set ?at" by simp
  then have "length ?at > 0" by (cases ?at) auto
  with \<open>s \<in> set ?at\<close> show ?thesis
    by (simp add: approach5_def Let_def sortDescending_def)
qed

lemma picturesAtClick_contains:
  assumes "s \<in> set pics" and "containsPosition (lastClickedPosition g) s"
    and "pictures si = []" and "hasMousePositionData g"
  shows "s \<in> set (pictures (picturesAtClick g pics si))"
proof -
  let ?at = "filter (containsPosition (lastClickedPosition g)) pics"
  from assms have "s \<in> set ?at" by simp
  then have "length ?at > 0" by (cases ?at) auto
  with \<open>s \<in> set ?at\<close> assms(3,4) show ?thesis
    by (simp add: picturesAtClick_def Let_def sortDescending_def)
qed

text \<open>
  C10. The bounds test is inclusive on all four edges: for a shape of non-negative
  width and height, a position on the left or right edge with its \<open>y\<close> in range, or on
  the top or bottom edge with its \<open>x\<close> in range, is contained in the shape; approach 5
  then keeps the shape among its results, and so does the position step of the picture
  cascade.
\<close>

theorem edges_count_as_inside:
  assumes "0 \<le> width s" and "0 \<le> height s"
    and "((x p = left s \<or> x p = left s + width s) \<and> top' s \<le> y p \<and> y p \<le> top' s + height s)
       \<or> ((y p = top' s \<or> y p = top' s + height s) \<and> left s \<le> x p \<and> x p \<le> left s + width s)"
  shows "containsPosition p s
       \<and> (s \<in> set items \<and> lastClickedPosition g = p
            \<longrightarrow> (\<exists>si'. approach5 g items si = Some si' \<and> s \<in> set (shapes si')))
       \<and> (s \<in> set items \<and> lastClickedPosition g = p \<and> hasMousePositionData g \<and> pictures si = []
            \<longrightarrow> s \<in> set (pictures (picturesAtClick g items si)))"
proof -
  from assms have c: "containsPosition p s"
    by (auto simp add: containsPosition_def)
  then show ?thesis
    using approach5_contains [of s items g si] picturesAtClick_contains [of s items g si]
    by blast
qed

theorem edges_count_as_inside_witness:
  "containsPosition \<lparr>x = 0, y = 40\<rparr> plainShape
   \<and> containsPosition \<lparr>x = 200, y = 40\<rparr> plainShape
   \<and> containsPosition \<lparr>x = 30, y = 0\<rparr> plainShape
   \<and> containsPosition \<lparr>x = 30, y = 100\<rparr> plainShape
   \<and> containsPosition \<lparr>x = 200, y = 100\<rparr> plainShape
   \<and> (\<exists>si'. approach5 (initialGlobals\<lparr>lastClickedPosition := \<lparr>x = 200, y = 100\<rparr>\<rparr>)
                [plainShape] newSelectionInfo = Some si' \<and> plainShape \<in> set (shapes si'))
   \<and> plainShape \<in> set (pictures (picturesAtClick
         (initialGlobals\<lparr>lastClickedPosition := \<lparr>x = 200, y = 100\<rparr>, hasMousePositionData := True\<rparr>)
         [plainShape] newSelectionInfo))"
  using edges_count_as_inside [of plainShape "\<lparr>x = 0, y = 40\<rparr>"]
    edges_count_as_inside [of plainShape "\<lparr>x = 200, y = 40\<rparr>"]
    edges_count_as_inside [of plainShape "\<lparr>x = 30, y = 0\<rparr>"]
    edges_count_as_inside [of plainShape "\<lparr>x = 30, y = 100\<rparr>"]
    edges_count_as_inside [of plainShape "\<lparr>x = 200, y = 100\<rparr>" "[plainShape]"
      "initialGlobals\<lparr>lastClickedPosition := \<lparr>x = 200, y = 100\<rparr>\<rparr>" newSelectionInfo]
    edges_count_as_inside [of plainShape "\<lparr>x = 200, y = 100\<rparr>" "[plainShape]"
      "initialGlobals\<lparr>lastClickedPosition := \<lparr>x = 200, y = 100\<rparr>, hasMousePositionData := True\<rparr>"
      newSelectionInfo]
  by (simp add: plainShape_def newSelectionInfo_def initialGlobals_def)

lemma approach1_nothing: "noDirectSelection h \<Longrightarrow> approach1 h si = None"
  by (auto simp add: noDirectSelection_def approach1_def split: sum.splits)

lemma approach2_nothing: "noActiveViewSelection h \<Longrightarrow> approach2 h si = None"
  by (auto simp add: noActiveViewSelection_def approach2_def split: sum.splits option.splits)

lemma firstSlideShapesD:
  assumes "firstSlideShapes h = Some items"
  obtains sl rest where "getSelectedSlides h = Inr (sl # rest)" and "slideShapes sl = Inr (Some items)"
  using assms by (auto simp add: firstSlideShapes_def split: sum.splits list.splits option.splits)

lemma cascade_reaches_slide:
  assumes "firstSlideShapes h = Some items" and "noDirectSelection h" and "noActiveViewSelection h"
  shows "runShapeCascade h g si =
           (if length items = 0 then ([Approach1, Approach2], si)
            else (case cascadeFrom3 h g items si of
                    (tr, si') \<Rightarrow> ([Approach1, Approach2] @ tr, si')))"
proof -
  from assms(1) obtain sl rest where "getSelectedSlides h = Inr (sl # rest)"
    and "slideShapes sl = Inr (Some items)" by (rule firstSlideShapesD)
  then show ?thesis
    by (simp add: runShapeCascade_def approach1_nothing [OF assms(2)]
        approach2_nothing [OF assms(3)])
qed

lemma cascade_alt_reaches_slide:
  assumes "firstSlideShapes h = Some items" and "noDirectSelection h" and "noActiveViewSelection h"
  shows "runShapeCascade_alt h =
           (if length items = 0
            then ([Approach1, Approach2], ''No elements found on the current slide.'')
            else (case cascadeFrom3_alt h items of
                    (tr, message) \<Rightarrow> ([Approach1, Approach2] @ tr, message)))"
proof -
  from assms(1) obtain sl rest where "getSelectedSlides h = Inr (sl # rest)"
    and "slideShapes sl = Inr (Some items)" by (rule firstSlideShapesD)
  moreover from assms(2) have "(case getSelection h of Inl selectionError \<Rightarrow> [] | Inr ss \<Rightarrow> ss) = []"
    by (auto simp add: noDirectSelection_def split: sum.splits)
  moreover from assms(3) have "(case getActiveView h of Inl viewError \<Rightarrow> [] | Inr None \<Rightarrow> []
      | Inr (Some ss) \<Rightarrow> ss) = []"
    by (auto simp add: noActiveViewSelection_def split: sum.splits option.splits)
  ultimately show ?thesis
    by (simp add: runShapeCascade_alt_def)
qed

lemma filter_nonempty: "\<exists>s \<in> set xs. P s \<Longrightarrow> length (filter P xs) > 0"
  by (induction xs) auto

lemma approach3_found:
  assumes "\<exists>s \<in> set items. isSelected s = Some True"
  shows "approach3 items si
           = Some (claimMethod ''isSelected''
                     (si\<lparr>shapes := filter (\<lambda>s. isSelected s = Some True) items\<rparr>))"
  using filter_nonempty [OF assms] by (simp add: approach3_def)

lemma approach3_nothing:
  assumes "\<not> (\<exists>s \<in> set items. isSelected s = Some True)"
  shows "approach3 items si = None"
proof -
  from assms have "filter (\<lambda>s. isSelected s = Some True) items = []"
    by (simp add: filter_empty_conv)
  then show ?thesis by (simp add: approach3_def)
qed

lemma hostWith_simps [simp]:
  "firstSlideShapes (hostWith items) = Some items"
  "noDirectSelection (hostWith items)"
  "noActiveViewSelection (hostWith items)"
  "noTextSelection (hostWith items)"
  by (simp_all add: hostWith_def firstSlideShapes_def noDirectSelection_def
      noActiveViewSelection_def noTextSelection_def)

text \<open>
  C2. When approaches 1 and 2 give nothing (their queries raise, as on a host without
  these interfaces, or return no shape) and the slide's shapes are read, then as soon as
  some shape has \<open>isSelected\<close> true the cascade stops at approach 3 and the selection
  info holds exactly the shapes with the flag, all of them, in slide order; the older
  script displays the same list. Without a flagged shape approach 3 finds nothing.
\<close>

theorem strategy3_keeps_every_selected_shape:
  assumes "firstSlideShapes h = Some items"
    and "noDirectSelection h" and "noActiveViewSelection h"
  shows "((\<exists>s \<in> set items. isSelected s = Some True) \<longrightarrow>
            shapes (detectShapesDirectly h g si) = filter (\<lambda>s. isSelected s = Some True) items
          \<and> set (shapes (detectShapesDirectly h g si)) = {s \<in> set items. isSelected s = Some True}
          \<and> attemptedApproaches h g si = [Approach1, Approach2, Approach3]
          \<and> detectShapesDirectly_alt h
              = foundMessage_alt [] (filter (\<lambda>s. isSelected s = Some True) items))
       \<and> (\<not> (\<exists>s \<in> set items. isSelected s = Some True) \<longrightarrow> approach3 items si = None)"
proof (intro conjI impI)
  assume sel: "\<exists>s \<in> set items. isSelected s = Some True"
  then have ne: "length items \<noteq> 0" by auto
  have run: "runShapeCascade h g si
               = ([Approach1, Approach2, Approach3],
                  claimMethod ''isSelected''
                    (si\<lparr>shapes := filter (\<lambda>s. isSelected s = Some True) items\<rparr>))"
    using ne by (simp add: cascade_reaches_slide [OF assms] cascadeFrom3_def approach3_found [OF sel])
  show a: "shapes (detectShapesDirectly h g si) = filter (\<lambda>s. isSelected s = Some True) items"
    by (simp add: detectShapesDirectly_def run)
  show "set (shapes (detectShapesDirectly h g si)) = {s \<in> set items. isSelected s = Some True}"
    by (simp add: a)
  show "attemptedApproaches h g si = [Approach1, Approach2, Approach3]"
    by (simp add: attemptedApproaches_def run)
  show "detectShapesDirectly_alt h
          = foundMessage_alt [] (filter (\<lambda>s. isSelected s = Some True) items)"
    using ne filter_nonempty [OF sel]
    by (simp add: detectShapesDirectly_alt_def cascade_alt_reaches_slide [OF assms]
        cascadeFrom3_alt_def)
next
  assume "\<not> (\<exists>s \<in> set items. isSelected s = Some True)"
  then show "approach3 items si = None" by (rule approach3_nothing)
qed

theorem strategy3_keeps_every_selected_shape_witness:
  "firstSlideShapes (hostWith [selectedBox, otherBox, thirdBox]) = Some [selectedBox, otherBox, thirdBox]
   \<and> isl (getSelection (hostWith [selectedBox, otherBox, thirdBox]))
   \<and> isl (getActiveView (hostWith [selectedBox, otherBox, thirdBox]))
   \<and> shapes (detectShapesDirectly (hostWith [selectedBox, otherBox, thirdBox]) initialGlobals
        newSelectionInfo) = [selectedBox, thirdBox]
   \<and> attemptedApproaches (hostWith [selectedBox, otherBox, thirdBox]) initialGlobals
        newSelectionInfo = [Approach1, Approach2, Approach3]
   \<and> detectShapesDirectly_alt (hostWith [selectedBox, otherBox, thirdBox])
        = foundMessage_alt [] [selectedBox, thirdBox]
   \<and> approach3 [otherBox] newSelectionInfo = None"
proof -
  let ?items = "[selectedBox, otherBox, thirdBox]"
  have sel: "filter (\<lambda>s. isSelected s = Some True) ?items = [selectedBox, thirdBox]"
    by (simp add: selectedBox_def otherBox_def thirdBox_def)
  have ex: "\<exists>s \<in> set ?items. isSelected s = Some True"
    by (simp add: selectedBox_def)
  have no: "\<not> (\<exists>s \<in> set [otherBox]. isSelected s = Some True)"
    by (simp add: otherBox_def)
  have un: "isl (getSelection (hostWith ?items))" "isl (getActiveView (hostWith ?items))"
    by (simp_all add: hostWith_def)
  from strategy3_keeps_every_selected_shape
      [OF hostWith_simps(1) hostWith_simps(2) hostWith_simps(3),
        of ?items initialGlobals newSelectionInfo]
    strategy3_keeps_every_selected_shape
      [OF hostWith_simps(1) hostWith_simps(2) hostWith_simps(3),
        of "[otherBox]" initialGlobals newSelectionInfo]
    ex no un
  show ?thesis by (simp only: sel hostWith_simps simp_thms)
qed

lemma approach5_found:
  assumes "\<exists>s \<in> set items. containsPosition (lastClickedPosition g) s"
  shows "approach5 g items si
           = Some (claimMethod ''position''
                     (si\<lparr>shapes := sortDescending zIndex
                                     (filter (containsPosition (lastClickedPosition g)) items)\<rparr>))"
  using filter_nonempty [OF assms] by (simp add: approach5_def)

lemma approach5_not_attempted:
  "Approach5 \<in> set (attemptedApproaches h g si) \<Longrightarrow> hasMousePositionData g"
  by (auto simp add: attemptedApproaches_def runShapeCascade_def cascadeFrom3_def
      cascadeFrom5_def Let_def
      split: sum.splits list.splits option.splits if_splits prod.splits)

lemma sortDescending_hd_max:
  assumes "xs \<noteq> []"
  shows "\<forall>s \<in> set xs. key s \<le> key (hd (sortDescending key xs))"
proof -
  from assms have "sortDescending key xs \<noteq> []"
    using sortDescending_length [of key xs] by auto
  then obtain m rest where "sortDescending key xs = m # rest"
    by (cases "sortDescending key xs") auto
  then show ?thesis using sortDescending_head_max [of key xs m rest] by simp
qed

lemma approach4_nothing:
  "\<not> (\<exists>s \<in> set items. lastModified s \<noteq> None) \<Longrightarrow> approach4 h items si = None"
proof -
  assume "\<not> (\<exists>s \<in> set items. lastModified s \<noteq> None)"
  then have "filter (\<lambda>s. lastModified s \<noteq> None) items = []"
    by (simp add: filter_empty_conv)
  then show ?thesis by (simp add: approach4_def split: option.splits)
qed

text \<open>
  C3. Approach 5 is entered only when \<open>hasMousePositionData\<close> is set. When the
  cascade reaches it with the flag set and some shape contains the last clicked
  position, the result is every shape of the slide whose rectangle contains that
  position, sorted by descending z-index, so the first has the greatest z-index.
  With the flag unset the cascade keeps no shape and stores all shapes instead.
\<close>

theorem strategy5_puts_topmost_first:
  "(Approach5 \<in> set (attemptedApproaches h g si) \<longrightarrow> hasMousePositionData g)
   \<and> (firstSlideShapes h = Some items \<and> noDirectSelection h \<and> noActiveViewSelection h
        \<and> approach3 items si = None \<and> approach4 h items si = None
        \<and> hasMousePositionData g
        \<and> (\<exists>s \<in> set items. containsPosition (lastClickedPosition g) s)
      \<longrightarrow> shapes (detectShapesDirectly h g si)
            = sortDescending zIndex (filter (containsPosition (lastClickedPosition g)) items)
          \<and> set (shapes (detectShapesDirectly h g si))
            = {s \<in> set items. containsPosition (lastClickedPosition g) s}
          \<and> sorted (map (\<lambda>s. - zIndex s) (shapes (detectShapesDirectly h g si)))
          \<and> (\<forall>s \<in> set items. containsPosition (lastClickedPosition g) s
                \<longrightarrow> zIndex s \<le> zIndex (hd (shapes (detectShapesDirectly h g si))))
          \<and> Approach5 \<in> set (attemptedApproaches h g si))
   \<and> (firstSlideShapes h = Some items \<and> items \<noteq> []
        \<and> noDirectSelection h \<and> noActiveViewSelection h
        \<and> approach3 items si = None \<and> approach4 h items si = None
        \<and> \<not> hasMousePositionData g
      \<longrightarrow> shapes (detectShapesDirectly h g si) = shapes si
          \<and> allShapes (detectShapesDirectly h g si) = Some items)"
proof (intro conjI impI)
  assume "Approach5 \<in> set (attemptedApproaches h g si)"
  then show "hasMousePositionData g" by (rule approach5_not_attempted)
next
  assume a: "firstSlideShapes h = Some items \<and> noDirectSelection h \<and> noActiveViewSelection h
        \<and> approach3 items si = None \<and> approach4 h items si = None
        \<and> hasMousePositionData g
        \<and> (\<exists>s \<in> set items. containsPosition (lastClickedPosition g) s)"
  let ?at = "filter (containsPosition (lastClickedPosition g)) items"
  from a have ne: "length items \<noteq> 0" by auto
  from a have found: "approach5 g items si
      = Some (claimMethod ''position'' (si\<lparr>shapes := sortDescending zIndex ?at\<rparr>))"
    by (simp add: approach5_found)
  from a have run: "runShapeCascade h g si
      = ([Approach1, Approach2, Approach3, Approach4, Approach5],
         claimMethod ''position'' (si\<lparr>shapes := sortDescending zIndex ?at\<rparr>))"
    using ne by (simp add: cascade_reaches_slide cascadeFrom3_def cascadeFrom5_def found)
  show out: "shapes (detectShapesDirectly h g si) = sortDescending zIndex ?at"
    by (simp add: detectShapesDirectly_def run)
  show "set (shapes (detectShapesDirectly h g si))
          = {s \<in> set items. containsPosition (lastClickedPosition g) s}"
    by (simp add: out sortDescending_set)
  show "sorted (map (\<lambda>s. - zIndex s) (shapes (detectShapesDirectly h g si)))"
    by (simp add: out sortDescending_def)
  from a have "?at \<noteq> []" using filter_nonempty [of items] by fastforce
  then show "\<forall>s \<in> set items. containsPosition (lastClickedPosition g) s
                \<longrightarrow> zIndex s \<le> zIndex (hd (shapes (detectShapesDirectly h g si)))"
    using sortDescending_hd_max [of ?at zIndex] by (simp add: out)
  show "Approach5 \<in> set (attemptedApproaches h g si)"
    by (simp add: attemptedApproaches_def run)
next
  assume a: "firstSlideShapes h = Some items \<and> items \<noteq> []
        \<and> noDirectSelection h \<and> noActiveViewSelection h
        \<and> approach3 items si = None \<and> approach4 h items si = None
        \<and> \<not> hasMousePositionData g"
  then have run: "runShapeCascade h g si
      = ([Approach1, Approach2, Approach3, Approach4, Approach6], si\<lparr>allShapes := Some items\<rparr>)"
    by (simp add: cascade_reaches_slide cascadeFrom3_def cascadeFrom5_def approach6_def
        sortDescending_length)
  show "shapes (detectShapesDirectly h g si) = shapes si"
    by (simp add: detectShapesDirectly_def run)
  show "allShapes (detectShapesDirectly h g si) = Some items"
    by (simp add: detectShapesDirectly_def run)
qed

theorem strategy5_puts_topmost_first_witness:
  "shapes (detectShapesDirectly (hostWith [backBox, frontBox, farBox]) clickedGlobals newSelectionInfo)
     = [frontBox, backBox]
   \<and> zIndex backBox \<le> zIndex (hd (shapes (detectShapesDirectly
         (hostWith [backBox, frontBox, farBox]) clickedGlobals newSelectionInfo)))
   \<and> Approach5 \<in> set (attemptedApproaches (hostWith [backBox, frontBox, farBox]) clickedGlobals
         newSelectionInfo)
   \<and> hasMousePositionData clickedGlobals
   \<and> \<not> hasMousePositionData initialGlobals
   \<and> shapes (detectShapesDirectly (hostWith [backBox, frontBox, farBox]) initialGlobals
         newSelectionInfo) = []
   \<and> allShapes (detectShapesDirectly (hostWith [backBox, frontBox, farBox]) initialGlobals
         newSelectionInfo) = Some [backBox, frontBox, farBox]"
proof -
  let ?items = "[backBox, frontBox, farBox]"
  let ?h = "hostWith ?items"
  have n3: "approach3 ?items newSelectionInfo = None"
    by (rule approach3_nothing) (simp add: backBox_def frontBox_def farBox_def plainShape_def)
  have n4: "approach4 ?h ?items newSelectionInfo = None"
    by (rule approach4_nothing) (simp add: backBox_def frontBox_def farBox_def plainShape_def)
  have c: "containsPosition (lastClickedPosition clickedGlobals) backBox"
    "containsPosition (lastClickedPosition clickedGlobals) frontBox"
    "\<not> containsPosition (lastClickedPosition clickedGlobals) farBox"
    by (simp_all add: containsPosition_def clickedGlobals_def backBox_def frontBox_def farBox_def
        plainShape_def)
  have p: "hasMousePositionData clickedGlobals" "\<not> hasMousePositionData initialGlobals"
    by (simp_all add: clickedGlobals_def initialGlobals_def)
  have s: "sortDescending zIndex [backBox, frontBox] = [frontBox, backBox]"
    by (simp add: sortDescending_def backBox_def frontBox_def plainShape_def)
  have e: "shapes newSelectionInfo = []" by (simp add: newSelectionInfo_def)
  have z: "zIndex backBox \<le> zIndex frontBox"
    by (simp add: backBox_def frontBox_def plainShape_def)
  from strategy5_puts_topmost_first [of ?h clickedGlobals newSelectionInfo ?items]
    strategy5_puts_topmost_first [of ?h initialGlobals newSelectionInfo ?items]
    n3 n4 c p s e z
  show ?thesis by simp
qed

lemma channels_identity:
  assumes "\<And>c. runChannel h c st = st"
  shows "runChannels h order st = st"
  unfolding runChannels_def by (induction order) (simp_all add: assms)

lemma text_channel_nothing: "noTextSelection h \<Longrightarrow> detectSelectionText h st = st"
  by (cases st) (auto simp add: noTextSelection_def detectSelectionText_def split: sum.splits)

lemma empty_message: "displaySelectionInfo newSelectionInfo
    = ''No element is currently selected.\<newline>\<newline>No elements found on the current slide.''"
  by (simp add: displaySelectionInfo_def hasSelection_def noSelectionMessage_def
      newSelectionInfo_def)

text \<open>
  C6, as the code has it. On a slide with no shapes the cascade first enters
  approaches 1 and 2, which come before the slide's shapes are read. When these find
  nothing, no approach after the check for an empty slide is entered: both cascades
  leave the selection info as it is. If moreover the host reports no selected text, the
  pass displays "No elements found on the current slide.", in every completion order.
  The older script, after its approaches 1 and 2 found nothing, displays the same
  sentence.
\<close>

theorem empty_slide_stops_at_check:
  assumes "firstSlideShapes h = Some []"
    and "noDirectSelection h" and "noActiveViewSelection h"
  shows "attemptedApproaches h g si = [Approach1, Approach2]
       \<and> detectShapesDirectly h g si = si
       \<and> detectPicturesSpecifically h g si = si
       \<and> (noTextSelection h \<longrightarrow>
            detectSelectedElement order h g
              = ''No element is currently selected.\<newline>\<newline>No elements found on the current slide.'')
       \<and> runShapeCascade_alt h
           = ([Approach1, Approach2], ''No elements found on the current slide.'')"
proof -
  have run: "\<And>si. runShapeCascade h g si = ([Approach1, Approach2], si)"
    by (simp add: cascade_reaches_slide [OF assms])
  have s: "\<And>si. detectShapesDirectly h g si = si"
    by (simp add: detectShapesDirectly_def run)
  from assms(1) obtain sl rest where "getSelectedSlides h = Inr (sl # rest)"
    and "slideShapes sl = Inr (Some [])" by (rule firstSlideShapesD)
  then have p: "\<And>si. detectPicturesSpecifically h g si = si"
    by (simp add: detectPicturesSpecifically_def)
  have pass: "detectSelectedElement order h g
      = ''No element is currently selected.\<newline>\<newline>No elements found on the current slide.''"
    if t: "noTextSelection h"
  proof -
    have "\<And>c. runChannel h c (g, newSelectionInfo) = (g, newSelectionInfo)"
    proof -
      fix c show "runChannel h c (g, newSelectionInfo) = (g, newSelectionInfo)"
        by (cases c) (simp_all add: text_channel_nothing [OF t] s p)
    qed
    then have "runChannels h order (g, newSelectionInfo) = (g, newSelectionInfo)"
      by (rule channels_identity)
    then show ?thesis
      by (simp only: detectSelectedElement_def passInfo_def snd_conv empty_message)
  qed
  show ?thesis
    using pass by (simp add: attemptedApproaches_def run s p cascade_alt_reaches_slide [OF assms])
qed

theorem empty_slide_stops_at_check_witness:
  "firstSlideShapes (hostWith []) = Some []
   \<and> noDirectSelection (hostWith []) \<and> noActiveViewSelection (hostWith [])
   \<and> noTextSelection (hostWith [])
   \<and> attemptedApproaches (hostWith []) initialGlobals newSelectionInfo = [Approach1, Approach2]
   \<and> detectSelectedElement [TextChannel, PictureChannel, ShapeChannel] (hostWith []) initialGlobals
       = ''No element is currently selected.\<newline>\<newline>No elements found on the current slide.''
   \<and> runShapeCascade_alt (hostWith [])
       = ([Approach1, Approach2], ''No elements found on the current slide.'')"
  using empty_slide_stops_at_check
      [OF hostWith_simps(1) hostWith_simps(2) hostWith_simps(3),
        of initialGlobals newSelectionInfo "[TextChannel, PictureChannel, ShapeChannel]"]
  by (simp only: hostWith_simps simp_thms)

text \<open>
  C6 as stated fails: on a slide with no shapes approaches 1 and 2 are entered, and
  when the host reports a selected text the pass displays that text, not "No elements
  found".
\<close>

theorem empty_slide_not_as_claimed_counterexample:
  "firstSlideShapes (textHost []) = Some []
   \<and> attemptedApproaches (textHost []) initialGlobals newSelectionInfo = [Approach1, Approach2]
   \<and> detectSelectedElement [TextChannel, PictureChannel, ShapeChannel] (textHost []) initialGlobals
       = ''=== CURRENT SELECTION INFO ===\<newline>\<newline>SELECTED TEXT:\<newline>''
         @ quoted ''Hi'' @ ''\<newline>\<newline>\<newline>Detection method: text''"
  by code_simp

subsection \<open>The most recently modified shape\<close>

lemma approach4_found:
  assumes "lastModifiedSync h = None" and "\<exists>s \<in> set items. lastModified s \<noteq> None"
  shows "approach4 h items si
           = Some (claimMethod ''lastModified''
                     (si\<lparr>shapes := [hd (sortDescending modifiedTime
                                            (filter (\<lambda>s. lastModified s \<noteq> None) items))]\<rparr>))"
proof -
  let ?ts = "filter (\<lambda>s. lastModified s \<noteq> None) items"
  have ne: "length ?ts > 0" using filter_nonempty [OF assms(2)] .
  then have "sortDescending modifiedTime ?ts \<noteq> []"
    using sortDescending_length [of modifiedTime ?ts] by auto
  then obtain m rest where "sortDescending modifiedTime ?ts = m # rest"
    by (cases "sortDescending modifiedTime ?ts") auto
  with ne assms(1) show ?thesis by (simp add: approach4_def)
qed

text \<open>
  C7, as the code has it. When the cascade reaches approach 4 (approaches 1 to 3 found
  nothing), the host calls of the approach succeed and some shape carries a
  \<open>lastModified\<close> value, the approach succeeds: the result is the single shape that
  comes first when the shapes carrying a value are sorted by descending time, a shape
  of the slide whose time is the greatest. It records the tag "lastModified", which
  names the heuristic, only when no tag has been claimed before; a claimed tag stays.
\<close>

theorem strategy4_picks_most_recent:
  assumes "firstSlideShapes h = Some items"
    and "noDirectSelection h" and "noActiveViewSelection h"
    and "approach3 items si = None"
    and "lastModifiedSync h = None"
    and "\<exists>s \<in> set items. lastModified s \<noteq> None"
  shows "(\<exists>m. shapes (detectShapesDirectly h g si) = [m]
            \<and> m = hd (sortDescending modifiedTime (filter (\<lambda>s. lastModified s \<noteq> None) items))
            \<and> m \<in> set items \<and> lastModified m \<noteq> None
            \<and> (\<forall>s \<in> set items. lastModified s \<noteq> None \<longrightarrow> modifiedTime s \<le> modifiedTime m))
       \<and> detectionMethod (detectShapesDirectly h g si)
           = (if unclaimed si then Some ''lastModified'' else detectionMethod si)
       \<and> attemptedApproaches h g si = [Approach1, Approach2, Approach3, Approach4]"
proof -
  let ?ts = "filter (\<lambda>s. lastModified s \<noteq> None) items"
  let ?m = "hd (sortDescending modifiedTime ?ts)"
  from assms(6) have ne: "length items \<noteq> 0" by auto
  have run: "runShapeCascade h g si
      = ([Approach1, Approach2, Approach3, Approach4],
         claimMethod ''lastModified'' (si\<lparr>shapes := [?m]\<rparr>))"
    using ne
    by (simp add: cascade_reaches_slide [OF assms(1-3)] cascadeFrom3_def assms(4)
        approach4_found [OF assms(5,6)])
  have tsne: "?ts \<noteq> []" using filter_nonempty [OF assms(6)] by auto
  then have "sortDescending modifiedTime ?ts \<noteq> []"
    using sortDescending_length [of modifiedTime ?ts] by auto
  then have "?m \<in> set (sortDescending modifiedTime ?ts)" by simp
  then have mem: "?m \<in> set ?ts" by (simp only: sortDescending_set)
  have mx: "\<forall>s \<in> set ?ts. modifiedTime s \<le> modifiedTime ?m"
    using sortDescending_hd_max [OF tsne] .
  have "shapes (detectShapesDirectly h g si) = [?m]"
    by (simp add: detectShapesDirectly_def run)
  moreover have "detectionMethod (detectShapesDirectly h g si)
           = (if unclaimed si then Some ''lastModified'' else detectionMethod si)"
    by (simp add: detectShapesDirectly_def run claimMethod_method unclaimed_def)
  moreover have "attemptedApproaches h g si = [Approach1, Approach2, Approach3, Approach4]"
    by (simp add: attemptedApproaches_def run)
  ultimately show ?thesis using mem mx by auto
qed

theorem strategy4_picks_most_recent_witness:
  "firstSlideShapes (hostWith [oldBox, newBox, backBox]) = Some [oldBox, newBox, backBox]
   \<and> lastModifiedSync (hostWith [oldBox, newBox, backBox]) = None
   \<and> unclaimed newSelectionInfo
   \<and> shapes (detectShapesDirectly (hostWith [oldBox, newBox, backBox]) initialGlobals
        newSelectionInfo) = [newBox]
   \<and> detectionMethod (detectShapesDirectly (hostWith [oldBox, newBox, backBox]) initialGlobals
        newSelectionInfo) = Some ''lastModified''
   \<and> attemptedApproaches (hostWith [oldBox, newBox, backBox]) initialGlobals newSelectionInfo
        = [Approach1, Approach2, Approach3, Approach4]"
proof -
  let ?items = "[oldBox, newBox, backBox]"
  have n3: "approach3 ?items newSelectionInfo = None"
    by (rule approach3_nothing)
      (simp add: oldBox_def newBox_def backBox_def plainShape_def)
  have sync: "lastModifiedSync (hostWith ?items) = None" by (simp add: hostWith_def)
  have ex: "\<exists>s \<in> set ?items. lastModified s \<noteq> None" by (simp add: oldBox_def)
  have hd: "hd (sortDescending modifiedTime (filter (\<lambda>s. lastModified s \<noteq> None) ?items)) = newBox"
    by (simp add: sortDescending_def modifiedTime_def oldBox_def newBox_def backBox_def
        plainShape_def)
  have u: "unclaimed newSelectionInfo" by (simp add: unclaimed_def newSelectionInfo_def)
  from strategy4_picks_most_recent
      [OF hostWith_simps(1) hostWith_simps(2) hostWith_simps(3) n3 sync ex, of initialGlobals]
    sync u hd
  show ?thesis by (auto simp only: hostWith_simps simp_thms if_True)
qed

text \<open>
  C7 as stated fails when another channel has claimed the tag: with a selected text
  reported first, approach 4 still picks the most recent shape, and the tag of the
  pass is "text".
\<close>

theorem strategy4_tag_not_recorded_counterexample:
  "shapes (passInfo [TextChannel, PictureChannel, ShapeChannel]
             (textHost [oldBox, newBox, backBox]) initialGlobals) = [newBox]
   \<and> detectionMethod (passInfo [TextChannel, PictureChannel, ShapeChannel]
             (textHost [oldBox, newBox, backBox]) initialGlobals) = Some ''text''"
  by code_simp

subsection \<open>The method tag\<close>

lemma unclaimed_updates [simp]:
  "unclaimed (si\<lparr>shapes := ss\<rparr>) = unclaimed si"
  "unclaimed (si\<lparr>pictures := ps\<rparr>) = unclaimed si"
  "unclaimed (si\<lparr>allShapes := a\<rparr>) = unclaimed si"
  "unclaimed (si\<lparr>allPictures := b\<rparr>) = unclaimed si"
  by (simp_all add: unclaimed_def)


lemma claimMethod_unclaimed [simp]: "\<not> unclaimed si \<Longrightarrow> \<not> unclaimed (claimMethod tag si)"
  by (simp add: claimMethod_def)













lemma storeAllPictures_tag [simp]:
  "detectionMethod (storeAllPictures pics si) = detectionMethod si"
  by (simp add: storeAllPictures_def)


text \<open>
  C1. The shape cascade and the picture cascade leave a claimed tag as it is (the two
  lemmas above), but the text channel assigns "text" without looking: when the shape
  cascade completes first and claims "isSelected", the text callback that follows
  replaces the tag, so the tag is assigned twice in one pass.
\<close>

theorem text_channel_overwrites_claimed_tag:
  "detectionMethod (snd (runChannels (textHost [selectedBox]) [ShapeChannel]
       (initialGlobals, newSelectionInfo))) = Some ''isSelected''
   \<and> detectionMethod (snd (runChannels (textHost [selectedBox]) [ShapeChannel, TextChannel]
       (initialGlobals, newSelectionInfo))) = Some ''text''
   \<and> detectionMethod (passInfo [ShapeChannel, PictureChannel, TextChannel]
       (textHost [selectedBox]) initialGlobals) = Some ''text''"
  by code_simp

subsection \<open>A whole pass with a failing first approach\<close>















subsection \<open>The text channel and the scan for the selected text\<close>










end
